theory Spec2Isabelle
  imports Complex_Main "HOL-Library.Word"
begin

unbundle bit_operations_syntax

section \<open>The ADXL345 bulk reader of klippy/extras/adxl345.py\<close>

text \<open>
  The embedding follows the class \<open>ADXL345\<close>. Python integers are \<open>int\<close> (they do not
  overflow), the elements of a \<open>bytearray\<close> are \<open>8 word\<close>, read as integers by \<open>uint\<close>.
  Python floats (print times, the per-sample interval, the scaled axis values) are
  idealised as \<open>real\<close>: rounding is not modelled. The attributes that the methods read
  and assign are the fields of the record \<open>adxl345\<close>; the collaborators (SPI bus, MCU,
  toolhead) are outside the class, so their replies are the arguments of type \<open>env\<close>.
  Every exception the methods can raise is a value of \<open>error\<close>, returned together with
  the state as it stands at the raise. The csv file that \<open>do_end\<close> writes is the value
  \<open>report\<close>, holding the numbers before they are formatted; failures of the file
  system and of the transport are not modelled.
\<close>

subsection \<open>Constants\<close>

definition QUERY_RATES :: "int \<rightharpoonup> int" where
  "QUERY_RATES = map_of
     [(25, 0x8), (50, 0x9), (100, 0xa), (200, 0xb), (400, 0xc),
      (800, 0xd), (1600, 0xe), (3200, 0xf)]"

definition SCALE :: real where
  "SCALE = 0.004 * 9.80665 * 1000"

definition REG_DEVID :: int where "REG_DEVID = 0x00"
definition REG_BW_RATE :: int where "REG_BW_RATE = 0x2C"
definition REG_DATA_FORMAT :: int where "REG_DATA_FORMAT = 0x31"
definition REG_FIFO_CTL :: int where "REG_FIFO_CTL = 0x38"
definition REG_MOD_READ :: int where "REG_MOD_READ = 0x80"

subsection \<open>State, messages and errors\<close>

type_synonym byte = "8 word"

text \<open>The attributes of \<open>self\<close> assigned in \<open>__init__\<close> and mutated later.\<close>

record adxl345 =
  query_rate :: int
  last_tx_time :: real
  samples :: "(int \<times> byte list) list"
  last_sequence :: int
  samples_start1 :: real
  samples_start2 :: real

definition init :: adxl345 where
  "init = \<lparr> query_rate = 0, last_tx_time = 0, samples = [], last_sequence = 0,
            samples_start1 = 0, samples_start2 = 0 \<rparr>"

text \<open>The \<open>params\<close> dictionaries of the three MCU responses.\<close>

record start_params =
  start1_time :: int
  start2_time :: int

record data_params =
  d_sequence :: int
  d_data :: "byte list"

record end_params =
  end1_time :: int
  end2_time :: int
  limit_count :: int
  e_sequence :: int

text \<open>
  What the collaborators answer during one command: the clock conversions of the MCU,
  its object id, the reply of \<open>spi_transfer\<close>, the toolhead's last move time and the
  reply to the synchronous \<open>query_adxl345\<close> that halts the stream.
\<close>

record env =
  clock_to_print_time :: "int \<Rightarrow> real"
  print_time_to_clock :: "real \<Rightarrow> int"
  seconds_to_clock :: "real \<Rightarrow> int"
  oid :: int
  spi_response :: "byte list"
  last_move_time :: real
  end_reply :: end_params

datatype error =
    InvalidId byte      \<comment> \<open>command_error "Invalid adxl345 id (got %x vs %x)"\<close>
  | AlreadyRunning      \<comment> \<open>gcmd.error "adxl345 already running"\<close>
  | InvalidRate         \<comment> \<open>gcmd.error "Not a valid adxl345 query rate"\<close>
  | IndexError
  | KeyError
  | ZeroDivisionError

datatype command =
    SpiSend "int list" int             \<comment> \<open>data, minclock\<close>
  | QueryAdxl345 int int int int       \<comment> \<open>oid, clock, rest_ticks, reqclock\<close>

subsection \<open>Sequence reconstruction and ingestion\<close>

definition handle_adxl345_start :: "env \<Rightarrow> start_params \<Rightarrow> adxl345 \<Rightarrow> adxl345" where
  "handle_adxl345_start e params s =
     s\<lparr> samples_start1 := clock_to_print_time e (start1_time params),
        samples_start2 := clock_to_print_time e (start2_time params) \<rparr>"

definition handle_adxl345_data :: "data_params \<Rightarrow> adxl345 \<Rightarrow> adxl345" where
  "handle_adxl345_data params s =
     (let last_seq = last_sequence s;
          sequence0 = (last_seq AND NOT 0xffff) OR d_sequence params;
          sequence1 = (if sequence0 < last_seq then sequence0 + 0x10000 else sequence0);
          s1 = s\<lparr> last_sequence := sequence1 \<rparr>
      in if length (samples s1) \<ge> 200000 then s1
         else s1\<lparr> samples := samples s1 @ [(sequence1, d_data params)] \<rparr>)"

definition convert_sequence :: "adxl345 \<Rightarrow> int \<Rightarrow> int" where
  "convert_sequence s sequence =
     (let sequence0 = (last_sequence s AND NOT 0xffff) OR sequence
      in if sequence0 < last_sequence s then sequence0 + 0x10000 else sequence0)"

text \<open>The delivery callback invoked once per data packet, in arrival order.\<close>

primrec feed :: "data_params list \<Rightarrow> adxl345 \<Rightarrow> adxl345" where
  "feed [] s = s"
| "feed (p # ps) s = feed ps (handle_adxl345_data p s)"

text \<open>The value of \<open>last_sequence\<close> after each packet of a run.\<close>

primrec extended :: "data_params list \<Rightarrow> adxl345 \<Rightarrow> int list" where
  "extended [] s = []"
| "extended (p # ps) s =
     last_sequence (handle_adxl345_data p s) # extended ps (handle_adxl345_data p s)"

subsection \<open>Start and stop\<close>

definition do_start :: "env \<Rightarrow> int \<Rightarrow> adxl345 \<Rightarrow> (error + command list) \<times> adxl345" where
  "do_start e rate s =
     (let response = spi_response e in
      if length response \<le> 1 then (Inl IndexError, s)
      else if response ! 1 \<noteq> 0xe5 then (Inl (InvalidId (response ! 1)), s)
      else
        let clock = (if last_tx_time s \<noteq> 0 then print_time_to_clock e (last_tx_time s) else 0)
        in case QUERY_RATES rate of
             None \<Rightarrow> (Inl KeyError, s)
           | Some code \<Rightarrow>
               let print_time = last_move_time e;
                   reqclock = print_time_to_clock e print_time;
                   rest_ticks = seconds_to_clock e (4 / of_int rate)
               in (Inr [SpiSend [REG_DATA_FORMAT, 0x0B] clock,
                        SpiSend [REG_FIFO_CTL, 0x80] 0,
                        SpiSend [REG_BW_RATE, code] 0,
                        QueryAdxl345 (oid e) reqclock rest_ticks reqclock],
                   s\<lparr> samples := [], last_sequence := 0,
                      samples_start1 := print_time, samples_start2 := print_time,
                      last_tx_time := print_time, query_rate := rate \<rparr>))"

text \<open>
  One axis value: \<open>(d[j*2] | (d[j*2+1] << 8)) - ((d[j*2+1] & 0x80) << 9)\<close>, before the
  multiplication by \<open>SCALE\<close>.
\<close>

definition axis_raw :: "byte \<Rightarrow> byte \<Rightarrow> int" where
  "axis_raw lo hi = (uint lo OR push_bit 8 (uint hi)) - push_bit 9 (uint hi AND 0x80)"

definition sdata :: "byte list \<Rightarrow> real list" where
  "sdata d = map (\<lambda>j. of_int (axis_raw (d ! (j * 2)) (d ! (j * 2 + 1))) * SCALE)
                 [0 ..< length d div 2]"

type_synonym row = "real \<times> real \<times> real \<times> real"

text \<open>The inner loop of \<open>do_end\<close>: the rows written for one retained batch.\<close>

definition batch_rows :: "real \<Rightarrow> real \<Rightarrow> real \<Rightarrow> int \<times> byte list \<Rightarrow> row list" where
  "batch_rows start2 seq_to_time sample_to_time b =
     (let seq = fst b; d = snd b; sd = sdata d;
          seq_time = start2 + of_int seq * seq_to_time
      in map (\<lambda>j. (seq_time + of_nat j * sample_to_time,
                   sd ! (j * 3), sd ! (j * 3 + 1), sd ! (j * 3 + 2)))
             [0 ..< length d div 6])"

text \<open>The outer loop of \<open>do_end\<close>, over the retained batches in order.\<close>

primrec write_rows :: "real \<Rightarrow> real \<Rightarrow> real \<Rightarrow> (int \<times> byte list) list \<Rightarrow> row list" where
  "write_rows start2 seq_to_time sample_to_time [] = []"
| "write_rows start2 seq_to_time sample_to_time (b # bs) =
     batch_rows start2 seq_to_time sample_to_time b
       @ write_rows start2 seq_to_time sample_to_time bs"

text \<open>
  The number of rows written before the rows of batch \<open>i\<close>: the position in the file
  of the first sample of that batch.
\<close>

definition row_offset :: "(int \<times> byte list) list \<Rightarrow> nat \<Rightarrow> nat" where
  "row_offset smp i = sum_list (map (\<lambda>b. length (snd b) div 6) (take i smp))"

text \<open>What \<open>do_end\<close> writes to the csv file: the header values, the rows, the counts.\<close>

record report =
  r_start1 :: real
  r_start2 :: real
  r_end1 :: real
  r_end2 :: real
  r_limit_count :: int
  r_end_seq :: int
  time_per_sample :: real
  rows :: "row list"
  total_count :: int
  actual_count :: int
  drops :: int

definition do_end :: "env \<Rightarrow> adxl345 \<Rightarrow> (error + report option) \<times> adxl345" where
  "do_end e s =
     (if query_rate s = 0 then (Inr None, s)
      else
        let print_time = last_move_time e;
            params = end_reply e;
            smp = samples s;
            s1 = s\<lparr> last_tx_time := print_time, query_rate := 0, samples := [] \<rparr>;
            end1 = clock_to_print_time e (end1_time params);
            end2 = clock_to_print_time e (end2_time params);
            end_sequence = convert_sequence s1 (e_sequence params)
        in if smp = [] then (Inl IndexError, s1)
           else
             let total = (end_sequence - 1) * 8 + int (length (snd (last smp))) div 6;
                 start2 = samples_start2 s1;
                 total_time = end2 - start2
             in if total = 0 then (Inl ZeroDivisionError, s1)
                else
                  let sample_to_time = total_time / of_int total;
                      seq_to_time = sample_to_time * 8;
                      rs = write_rows start2 seq_to_time sample_to_time smp;
                      actual = int (length rs)
                  in (Inr (Some \<lparr> r_start1 = samples_start1 s1, r_start2 = start2,
                                  r_end1 = end1, r_end2 = end2,
                                  r_limit_count = limit_count params,
                                  r_end_seq = end_sequence,
                                  time_per_sample = sample_to_time,
                                  rows = rs, total_count = total,
                                  actual_count = actual, drops = total - actual \<rparr>),
                      s1))"

subsection \<open>The command ACCELEROMETER_MEASURE\<close>

datatype outcome =
    Stopped "report option"    \<comment> \<open>respond_info "adxl345 measurements stopped"\<close>
  | Started "command list"

definition cmd_ACCELEROMETER_MEASURE :: "env \<Rightarrow> int \<Rightarrow> adxl345 \<Rightarrow> (error + outcome) \<times> adxl345" where
  "cmd_ACCELEROMETER_MEASURE e rate s =
     (if rate = 0 then
        (case do_end e s of
           (Inl err, s') \<Rightarrow> (Inl err, s')
         | (Inr r, s') \<Rightarrow> (Inr (Stopped r), s'))
      else if query_rate s \<noteq> 0 then (Inl AlreadyRunning, s)
      else if QUERY_RATES rate = None then (Inl InvalidRate, s)
      else
        (case do_start e rate s of
           (Inl err, s') \<Rightarrow> (Inl err, s')
         | (Inr cs, s') \<Rightarrow> (Inr (Started cs), s')))"

subsection \<open>Example inputs\<close>

text \<open>
  An environment and a streaming state used to run the definitions: the stream was
  started at print time 10 with rate 100 and one batch of eight samples has arrived.
\<close>

definition example_env :: env where
  "example_env = \<lparr> clock_to_print_time = of_int, print_time_to_clock = floor,
       seconds_to_clock = floor, oid = 0, spi_response = [0, 0xe5], last_move_time = 14,
       end_reply = \<lparr> end1_time = 14, end2_time = 14, limit_count = 0, e_sequence = 500 \<rparr> \<rparr>"

definition streaming_example :: adxl345 where
  "streaming_example = \<lparr> query_rate = 100, last_tx_time = 10,
       samples = [(0, concat (replicate 8 [0x64, 0x00, 0x9c, 0xff, 0xff, 0x0f]))], last_sequence = 0,
       samples_start1 = 10, samples_start2 = 10 \<rparr>"

text \<open>
  What stopping \<open>streaming_example\<close> in \<open>example_env\<close> writes and leaves: the MCU
  reports the final sequence 500 at print time 14.
\<close>

definition example_report :: report where
  "example_report =
     \<lparr> r_start1 = 10, r_start2 = 10, r_end1 = 14, r_end2 = 14,
       r_limit_count = 0, r_end_seq = 500, time_per_sample = 0.001,
       rows = map (\<lambda>j. (10 + of_nat j * 0.001, 100 * SCALE, - 100 * SCALE, 4095 * SCALE)) [0 ..< 8],
       total_count = 4000, actual_count = 8, drops = 3992 \<rparr>"

definition stopped_example :: adxl345 where
  "stopped_example = \<lparr> query_rate = 0, last_tx_time = 14, samples = [], last_sequence = 0,
       samples_start1 = 10, samples_start2 = 10 \<rparr>"

text \<open>
  The state that the command with rate 100 leaves when issued on \<open>init\<close> in
  \<open>example_env\<close>, the state after one packet without samples has then arrived, and
  the environment in which the MCU reports the final sequence 1.
\<close>

definition started_example :: adxl345 where
  "started_example = \<lparr> query_rate = 100, last_tx_time = 14, samples = [],
       last_sequence = 0, samples_start1 = 14, samples_start2 = 14 \<rparr>"

definition empty_batch_example :: adxl345 where
  "empty_batch_example = \<lparr> query_rate = 100, last_tx_time = 14, samples = [(0, [])],
       last_sequence = 0, samples_start1 = 14, samples_start2 = 14 \<rparr>"

definition first_end_env :: env where
  "first_end_env = example_env\<lparr> end_reply :=
       \<lparr> end1_time = 14, end2_time = 14, limit_count = 0, e_sequence = 1 \<rparr> \<rparr>"

subsection \<open>The decoding as the specification words it\<close>

text \<open>
  The specification describes each axis value as sign-extended at 13-bit width: bit 12
  of the little-endian 16-bit field is the sign bit and the bits above it are masked.
  This definition follows those words; \<open>axis_raw\<close> above follows the source.
\<close>

definition axis_13bit_spec :: "byte \<Rightarrow> byte \<Rightarrow> int" where
  "axis_13bit_spec lo hi = signed_take_bit 12 (uint lo OR push_bit 8 (uint hi))"

section \<open>Sequence reconstruction\<close>

text \<open>
  The candidate \<open>(last_sequence & ~0xffff) | sequence\<close> in arithmetic form: the high
  part of the context plus the raw value, for a raw value of 16 bits.
\<close>

lemma and_not_ffff: "(l::int) AND NOT 0xffff = l - l mod 65536"
proof -
  have "l AND NOT (mask 16) = push_bit 16 (drop_bit 16 l)"
    by (rule bit_eqI) (auto simp: bit_simps)
  moreover have "push_bit 16 (drop_bit 16 l) = l - take_bit 16 l"
    using bits_ident [of 16 l] by simp
  ultimately have "l AND NOT (mask 16) = l - l mod 2 ^ 16"
    by (simp add: take_bit_eq_mod)
  then show ?thesis by (simp add: mask_eq_exp_minus_1)
qed

lemma or_low16:
  assumes "0 \<le> r" "r < 65536"
  shows "((l::int) AND NOT 0xffff) OR r = (l AND NOT 0xffff) + r"
proof -
  have r: "take_bit 16 r = r"
    using assms by (simp add: take_bit_int_eq_self)
  have m: "(0xffff::int) = mask 16"
    by (simp add: mask_eq_exp_minus_1)
  have "(l AND NOT (mask 16)) + take_bit 16 r = (l AND NOT (mask 16)) OR take_bit 16 r"
    by (rule disjunctive_add_eq_or, rule bit_eqI) (auto simp: bit_simps)
  then show ?thesis
    by (simp only: r m)
qed

lemma candidate_eq:
  assumes "0 \<le> r" "r < 65536"
  shows "((l::int) AND NOT 0xffff) OR r = l - l mod 65536 + r"
  using or_low16 [OF assms, of l] by (simp only: and_not_ffff)

lemma last_sequence_handle:
  "last_sequence (handle_adxl345_data p s) = convert_sequence s (d_sequence p)"
  by (simp add: handle_adxl345_data_def convert_sequence_def Let_def)

lemma samples_handle:
  "samples (handle_adxl345_data p s) =
     (if length (samples s) \<ge> 200000 then samples s
      else samples s @ [(convert_sequence s (d_sequence p), d_data p)])"
  by (simp add: handle_adxl345_data_def convert_sequence_def Let_def)

lemma convert_sequence_arith:
  assumes "0 \<le> r" "r < 65536"
  shows "convert_sequence s r =
      (if last_sequence s - last_sequence s mod 65536 + r < last_sequence s
       then last_sequence s - last_sequence s mod 65536 + r + 65536
       else last_sequence s - last_sequence s mod 65536 + r)"
  unfolding convert_sequence_def Let_def candidate_eq [OF assms] by simp

lemma convert_sequence_ge:
  assumes "0 \<le> r" "r < 65536"
  shows "last_sequence s \<le> convert_sequence s r"
proof -
  define m where "m = last_sequence s mod 65536"
  have b: "0 \<le> m" "m < 65536"
    by (simp_all add: m_def)
  have "convert_sequence s r =
      (if last_sequence s - m + r < last_sequence s
       then last_sequence s - m + r + 65536 else last_sequence s - m + r)"
    unfolding m_def by (rule convert_sequence_arith [OF assms])
  then show ?thesis
    using b assms by auto
qed

lemma convert_sequence_samples [simp]:
  "convert_sequence (s\<lparr>samples := b\<rparr>) r = convert_sequence s r"
  by (simp add: convert_sequence_def)

lemma extended_sorted:
  assumes "\<forall>p \<in> set ps. 0 \<le> d_sequence p \<and> d_sequence p < 65536"
  shows "sorted (last_sequence s # extended ps s)"
  using assms
proof (induction ps arbitrary: s)
  case Nil
  then show ?case by simp
next
  case (Cons p ps)
  have step: "last_sequence s \<le> last_sequence (handle_adxl345_data p s)"
    using Cons.prems by (simp add: last_sequence_handle convert_sequence_ge)
  have rest: "sorted (last_sequence (handle_adxl345_data p s) # extended ps (handle_adxl345_data p s))"
    using Cons.prems by (intro Cons.IH) simp
  from step rest show ?case
    by (auto simp: order_trans)
qed

lemma samples_feed:
  "samples (feed ps s) =
     samples s @ take (200000 - length (samples s)) (zip (extended ps s) (map d_data ps))"
proof (induction ps arbitrary: s)
  case Nil
  then show ?case by simp
next
  case (Cons p ps)
  show ?case
  proof (cases "length (samples s) \<ge> 200000")
    case True
    then show ?thesis
      by (simp add: Cons.IH samples_handle)
  next
    case False
    then obtain k where k: "200000 - length (samples s) = Suc k"
      by (cases "200000 - length (samples s)") auto
    then have k': "199999 - length (samples s) = k"
      by simp
    show ?thesis
      using False by (simp add: Cons.IH samples_handle last_sequence_handle k k')
  qed
qed

lemma length_extended [simp]: "length (extended ps s) = length ps"
  by (induction ps arbitrary: s) simp_all

text \<open>
  Claim C3. Every call of the sequence reconstruction with a raw value and a context
  holding \<open>last_sequence\<close> returns the candidate
  \<open>(last_sequence & ~0xFFFF) | raw16\<close> when the candidate is at least
  \<open>last_sequence\<close>, and the candidate plus \<open>0x10000\<close> otherwise: one wrap, never
  more. At ingestion the result is stored in \<open>last_sequence\<close>, and the next packet is
  extended against the stored value.
\<close>

theorem sequence_extension_one_wrap:
  "convert_sequence s raw16 =
     (let candidate = (last_sequence s AND NOT 0xFFFF) OR raw16
      in if candidate \<ge> last_sequence s then candidate else candidate + 0x10000)
   \<and> last_sequence (handle_adxl345_data p s) = convert_sequence s (d_sequence p)
   \<and> last_sequence (feed [p, q] s) =
       convert_sequence (s\<lparr>last_sequence := convert_sequence s (d_sequence p)\<rparr>) (d_sequence q)"
  by (auto simp add: convert_sequence_def handle_adxl345_data_def Let_def)

theorem sequence_extension_one_wrap_witness:
  "convert_sequence (init\<lparr>last_sequence := 0x1FFFE\<rparr>) 3 = 0x20003
   \<and> last_sequence (feed [\<lparr>d_sequence = 0xFFFF, d_data = []\<rparr>, \<lparr>d_sequence = 2, d_data = []\<rparr>] init) = 0x10002"
  using sequence_extension_one_wrap [where s = "init\<lparr>last_sequence := 0x1FFFE\<rparr>" and ?raw16.0 = 3
      and p = "\<lparr>d_sequence = 0xFFFF, d_data = []\<rparr>" and q = "\<lparr>d_sequence = 2, d_data = []\<rparr>"]
    sequence_extension_one_wrap [where s = init and ?raw16.0 = 0
      and p = "\<lparr>d_sequence = 0xFFFF, d_data = []\<rparr>" and q = "\<lparr>d_sequence = 2, d_data = []\<rparr>"]
  by (simp add: init_def convert_sequence_def Let_def)

text \<open>
  Claim C4. For every run of packets with 16-bit raw sequence values, the extended
  values that the ingestion returns are non-decreasing, and none is below the context
  the run started from. The property holds for every run of 16-bit values, so also
  for the runs with at most one wrap between consecutive packets.
\<close>

theorem extended_sequence_nondecreasing:
  assumes "\<forall>p \<in> set ps. 0 \<le> d_sequence p \<and> d_sequence p < 65536"
  shows "sorted (extended ps s) \<and> (\<forall>x \<in> set (extended ps s). last_sequence s \<le> x)"
  using extended_sorted [OF assms, of s] by simp

theorem extended_sequence_nondecreasing_witness:
  "extended [\<lparr>d_sequence = 0xFFFE, d_data = []\<rparr>, \<lparr>d_sequence = 0xFFFF, d_data = []\<rparr>,
                 \<lparr>d_sequence = 0, d_data = []\<rparr>, \<lparr>d_sequence = 1, d_data = []\<rparr>] init
       = [0xFFFE, 0xFFFF, 0x10000, 0x10001]
   \<and> sorted (extended [\<lparr>d_sequence = 0xFFFE, d_data = []\<rparr>, \<lparr>d_sequence = 0xFFFF, d_data = []\<rparr>,
                 \<lparr>d_sequence = 0, d_data = []\<rparr>, \<lparr>d_sequence = 1, d_data = []\<rparr>] init)"
  using extended_sequence_nondecreasing [of "[\<lparr>d_sequence = 0xFFFE, d_data = []\<rparr>, \<lparr>d_sequence = 0xFFFF, d_data = []\<rparr>,
                 \<lparr>d_sequence = 0, d_data = []\<rparr>, \<lparr>d_sequence = 1, d_data = []\<rparr>]" init]
  by (simp add: init_def handle_adxl345_data_def Let_def)

section \<open>The sample buffer\<close>

lemma extended_replicate:
  "last_sequence s = 0 \<Longrightarrow> extended (replicate n \<lparr>d_sequence = 0, d_data = []\<rparr>) s = replicate n 0"
  by (induction n arbitrary: s) (simp_all add: handle_adxl345_data_def Let_def)

text \<open>
  Claim C6. A packet that arrives while fewer than 200000 batches are retained is
  appended at the end, the stored entries staying as they are; a packet that arrives
  while 200000 are retained changes nothing but \<open>last_sequence\<close> and raises nothing.
  Hence 200001 packets fed to an empty buffer leave the first 200000 batches, in
  arrival order.
\<close>

theorem buffer_cap_200000:
  "(length (samples s) < 200000 \<longrightarrow>
      samples (handle_adxl345_data p s) = samples s @ [(convert_sequence s (d_sequence p), d_data p)])
   \<and> (length (samples s) = 200000 \<longrightarrow> handle_adxl345_data p s = s\<lparr>last_sequence := convert_sequence s (d_sequence p)\<rparr>
         \<and> samples (handle_adxl345_data p s) = samples s)
   \<and> (samples s = [] \<and> length ps = 200001 \<longrightarrow>
         samples (feed ps s) = butlast (zip (extended ps s) (map d_data ps))
         \<and> length (samples (feed ps s)) = 200000)"
proof (intro conjI impI)
  assume "length (samples s) < 200000"
  then show "samples (handle_adxl345_data p s) = samples s @ [(convert_sequence s (d_sequence p), d_data p)]"
    by (simp add: samples_handle)
next
  assume "length (samples s) = 200000"
  then show "handle_adxl345_data p s = s\<lparr>last_sequence := convert_sequence s (d_sequence p)\<rparr>"
    by (simp add: handle_adxl345_data_def convert_sequence_def Let_def)
next
  assume "length (samples s) = 200000"
  then show "samples (handle_adxl345_data p s) = samples s"
    by (simp add: samples_handle)
next
  assume a: "samples s = [] \<and> length ps = 200001"
  have len: "length (zip (extended ps s) (map d_data ps)) = 200001"
    using a by simp
  have "samples (feed ps s) = take 200000 (zip (extended ps s) (map d_data ps))"
    using a by (simp add: samples_feed)
  also have "\<dots> = butlast (zip (extended ps s) (map d_data ps))"
    using len by (simp add: butlast_conv_take)
  finally show "samples (feed ps s) = butlast (zip (extended ps s) (map d_data ps))" .
  then show "length (samples (feed ps s)) = 200000"
    using len by simp
qed

theorem buffer_cap_200000_witness:
  "length (samples init) < 200000
   \<and> samples (handle_adxl345_data \<lparr>d_sequence = 3, d_data = [1, 2, 3, 4, 5, 6]\<rparr> init) = [(3, [1, 2, 3, 4, 5, 6])]
   \<and> length (samples (init\<lparr>samples := replicate 200000 (0, [])\<rparr>)) = 200000
   \<and> samples (handle_adxl345_data \<lparr>d_sequence = 3, d_data = [1, 2, 3, 4, 5, 6]\<rparr>
        (init\<lparr>samples := replicate 200000 (0, [])\<rparr>)) = replicate 200000 (0, [])
   \<and> samples init = [] \<and> length (replicate 200001 \<lparr>d_sequence = 0, d_data = []\<rparr>) = 200001
   \<and> samples (feed (replicate 200001 \<lparr>d_sequence = 0, d_data = []\<rparr>) init) = replicate 200000 (0, [])"
proof -
  have e: "extended (replicate 200001 \<lparr>d_sequence = 0, d_data = []\<rparr>) init = replicate 200001 0"
    by (rule extended_replicate) (simp add: init_def)
  have z: "butlast (zip (replicate 200001 (0::int)) (map d_data (replicate 200001 \<lparr>d_sequence = 0, d_data = []\<rparr>)))
           = replicate 200000 (0, [])"
    by (simp add: butlast_conv_take)
  show ?thesis
    using buffer_cap_200000 [of init "\<lparr>d_sequence = 3, d_data = [1, 2, 3, 4, 5, 6]\<rparr>" "replicate 200001 \<lparr>d_sequence = 0, d_data = []\<rparr>"]
      buffer_cap_200000 [of "init\<lparr>samples := replicate 200000 (0, [])\<rparr>" "\<lparr>d_sequence = 3, d_data = [1, 2, 3, 4, 5, 6]\<rparr>" "[]"]
    unfolding e z
    by (simp add: init_def convert_sequence_def Let_def)
qed

lemma feed_samples_update:
  "last_sequence (feed ps (s\<lparr>samples := b\<rparr>)) = last_sequence (feed ps s)
   \<and> extended ps (s\<lparr>samples := b\<rparr>) = extended ps s"
proof (induction ps arbitrary: s b)
  case Nil
  show ?case by simp
next
  case (Cons p ps)
  define b' where "b' = samples (handle_adxl345_data p (s\<lparr>samples := b\<rparr>))"
  have h: "handle_adxl345_data p (s\<lparr>samples := b\<rparr>) = (handle_adxl345_data p s)\<lparr>samples := b'\<rparr>"
    unfolding b'_def by (simp add: handle_adxl345_data_def Let_def)
  show ?case
    using Cons.IH [where s = "handle_adxl345_data p s" and b = b'] by (simp add: h)
qed

text \<open>
  Claim C9. The context \<open>last_sequence\<close> is updated by a packet that is dropped
  because the buffer is full. The extended values of a run, the context after it and
  the extension of the final sequence at stop do not depend on the contents of the
  buffer, so they are what they would be had no batch been dropped.
\<close>

theorem sequence_context_ignores_cap:
  "(length (samples s) \<ge> 200000 \<longrightarrow>
       samples (handle_adxl345_data p s) = samples s
       \<and> last_sequence (handle_adxl345_data p s) = convert_sequence s (d_sequence p))
   \<and> extended ps (s\<lparr>samples := b\<rparr>) = extended ps s
   \<and> last_sequence (feed ps (s\<lparr>samples := b\<rparr>)) = last_sequence (feed ps s)
   \<and> convert_sequence (feed ps (s\<lparr>samples := b\<rparr>)) r = convert_sequence (feed ps s) r"
  using feed_samples_update [where ps = ps and s = s and b = b]
  by (simp add: samples_handle last_sequence_handle convert_sequence_def)

theorem sequence_context_ignores_cap_witness:
  "length (samples (init\<lparr>samples := replicate 200000 (0, [])\<rparr>)) \<ge> 200000
   \<and> samples (handle_adxl345_data \<lparr>d_sequence = 9, d_data = [1, 2, 3, 4, 5, 6]\<rparr>
         (init\<lparr>samples := replicate 200000 (0, [])\<rparr>)) = replicate 200000 (0, [])
   \<and> last_sequence (handle_adxl345_data \<lparr>d_sequence = 9, d_data = [1, 2, 3, 4, 5, 6]\<rparr>
         (init\<lparr>samples := replicate 200000 (0, [])\<rparr>)) = 9
   \<and> extended [\<lparr>d_sequence = 9, d_data = []\<rparr>, \<lparr>d_sequence = 2, d_data = []\<rparr>]
         (init\<lparr>samples := replicate 200000 (0, [])\<rparr>) = [9, 65538]
   \<and> convert_sequence (feed [\<lparr>d_sequence = 9, d_data = []\<rparr>, \<lparr>d_sequence = 2, d_data = []\<rparr>]
         (init\<lparr>samples := replicate 200000 (0, [])\<rparr>)) 1 = 131073"
  using sequence_context_ignores_cap [where s = "init\<lparr>samples := replicate 200000 (0, [])\<rparr>"
      and p = "\<lparr>d_sequence = 9, d_data = [1, 2, 3, 4, 5, 6]\<rparr>"
      and ps = "[\<lparr>d_sequence = 9, d_data = []\<rparr>, \<lparr>d_sequence = 2, d_data = []\<rparr>]"
      and b = "[]" and r = 1]
  by (simp add: init_def convert_sequence_def handle_adxl345_data_def Let_def)

section \<open>Start and stop\<close>

lemma do_end_state:
  "snd (do_end e s) =
     (if query_rate s = 0 then s
      else s\<lparr> last_tx_time := last_move_time e, query_rate := 0, samples := [] \<rparr>)"
  by (simp add: do_end_def Let_def)

lemma do_end_idle: "query_rate s = 0 \<Longrightarrow> do_end e s = (Inr None, s)"
  by (simp add: do_end_def)

text \<open>
  Claim C7. While no stream is running (\<open>query_rate\<close> is 0) the stop command changes
  nothing and answers with the notice "adxl345 measurements stopped", no report being
  written. While a stream is running a start command of any rate fails with
  "adxl345 already running" and leaves every attribute, the buffer, the sequence
  context and the start times among them, as it was.
\<close>

theorem idle_stop_noop_streaming_start_rejected:
  "(query_rate s = 0 \<longrightarrow>
      do_end e s = (Inr None, s) \<and> cmd_ACCELEROMETER_MEASURE e 0 s = (Inr (Stopped None), s))
   \<and> (query_rate s \<noteq> 0 \<and> rate \<noteq> 0 \<longrightarrow>
      cmd_ACCELEROMETER_MEASURE e rate s = (Inl AlreadyRunning, s))"
  by (simp add: cmd_ACCELEROMETER_MEASURE_def do_end_idle)

theorem idle_stop_noop_streaming_start_rejected_witness:
  "query_rate init = 0
   \<and> cmd_ACCELEROMETER_MEASURE example_env 0 init = (Inr (Stopped None), init)
   \<and> query_rate streaming_example = 100
   \<and> cmd_ACCELEROMETER_MEASURE example_env 200 streaming_example = (Inl AlreadyRunning, streaming_example)"
  using idle_stop_noop_streaming_start_rejected [where s = init and e = example_env and rate = 200]
    idle_stop_noop_streaming_start_rejected [where s = streaming_example and e = example_env and rate = 200]
  by (simp add: init_def streaming_example_def)

lemma do_start_failure:
  "do_start e rate s = (Inl err, s') \<Longrightarrow> s' = s"
  by (auto simp: do_start_def Let_def split: if_splits option.splits)

lemma QUERY_RATES_dom: "dom QUERY_RATES = {25, 50, 100, 200, 400, 800, 1600, 3200}"
  by (auto simp: QUERY_RATES_def split: if_splits)

text \<open>
  Claim C8. A start command issued while no stream is running fails with
  "Not a valid adxl345 query rate" when the rate is not a key of \<open>QUERY_RATES\<close>, and
  with "Invalid adxl345 id" when the rate is valid and the second byte of the
  identification reply is not \<open>0xe5\<close>. Whenever a start command fails, the state is
  the state before the command: \<open>query_rate\<close> stays 0 and the buffer, the sequence
  context and the start times are unchanged.
\<close>

theorem failed_start_leaves_state:
  "(query_rate s = 0 \<and> rate \<noteq> 0 \<and> QUERY_RATES rate = None \<longrightarrow>
      cmd_ACCELEROMETER_MEASURE e rate s = (Inl InvalidRate, s))
   \<and> (query_rate s = 0 \<and> rate \<noteq> 0 \<and> QUERY_RATES rate \<noteq> None
        \<and> 2 \<le> length (spi_response e) \<and> spi_response e ! 1 \<noteq> 0xe5 \<longrightarrow>
      cmd_ACCELEROMETER_MEASURE e rate s = (Inl (InvalidId (spi_response e ! 1)), s))
   \<and> (rate \<noteq> 0 \<and> cmd_ACCELEROMETER_MEASURE e rate s = (Inl err, s') \<longrightarrow> s' = s)"
proof (intro conjI impI)
  assume "query_rate s = 0 \<and> rate \<noteq> 0 \<and> QUERY_RATES rate = None"
  then show "cmd_ACCELEROMETER_MEASURE e rate s = (Inl InvalidRate, s)"
    by (simp add: cmd_ACCELEROMETER_MEASURE_def)
next
  assume "query_rate s = 0 \<and> rate \<noteq> 0 \<and> QUERY_RATES rate \<noteq> None
        \<and> 2 \<le> length (spi_response e) \<and> spi_response e ! 1 \<noteq> 0xe5"
  then show "cmd_ACCELEROMETER_MEASURE e rate s = (Inl (InvalidId (spi_response e ! 1)), s)"
    by (simp add: cmd_ACCELEROMETER_MEASURE_def do_start_def Let_def)
next
  assume a: "rate \<noteq> 0 \<and> cmd_ACCELEROMETER_MEASURE e rate s = (Inl err, s')"
  show "s' = s"
  proof (cases "query_rate s \<noteq> 0 \<or> QUERY_RATES rate = None")
    case True
    with a show ?thesis
      by (auto simp: cmd_ACCELEROMETER_MEASURE_def split: if_splits)
  next
    case False
    with a have "do_start e rate s = (Inl err, s')"
      by (auto simp: cmd_ACCELEROMETER_MEASURE_def split: prod.splits sum.splits)
    then show ?thesis
      by (rule do_start_failure)
  qed
qed

theorem failed_start_leaves_state_witness:
  "query_rate init = 0 \<and> QUERY_RATES 123 = None
   \<and> cmd_ACCELEROMETER_MEASURE example_env 123 init = (Inl InvalidRate, init)
   \<and> QUERY_RATES 100 = Some 0xa
   \<and> spi_response (example_env\<lparr>spi_response := [0, 0x00]\<rparr>) ! 1 = 0
   \<and> cmd_ACCELEROMETER_MEASURE (example_env\<lparr>spi_response := [0, 0x00]\<rparr>) 100 init
       = (Inl (InvalidId 0), init)"
  using failed_start_leaves_state [where s = init and rate = 123 and e = example_env and err = InvalidRate and s' = init]
    failed_start_leaves_state [where s = init and rate = 100 and e = "example_env\<lparr>spi_response := [0, 0x00]\<rparr>"
      and err = "InvalidId 0" and s' = init]
  by (simp add: init_def QUERY_RATES_def)

section \<open>Timing and decoding at stop\<close>

lemma length_sdata [simp]: "length (sdata d) = length d div 2"
  by (simp add: sdata_def)

lemma sdata_nth:
  "k < length d div 2 \<Longrightarrow> sdata d ! k = of_int (axis_raw (d ! (k * 2)) (d ! (k * 2 + 1))) * SCALE"
  by (simp add: sdata_def)

lemma length_batch_rows [simp]:
  "length (batch_rows st sq sp b) = length (snd b) div 6"
  by (simp add: batch_rows_def Let_def)

lemma batch_rows_nth:
  assumes "j < length (snd b) div 6"
  shows "batch_rows st sq sp b ! j =
     (st + of_int (fst b) * sq + of_nat j * sp,
      sdata (snd b) ! (j * 3), sdata (snd b) ! (j * 3 + 1), sdata (snd b) ! (j * 3 + 2))"
  using assms by (simp add: batch_rows_def Let_def)

lemma length_write_rows:
  "length (write_rows st sq sp smp) = row_offset smp (length smp)"
  by (induction smp) (simp_all add: row_offset_def)

lemma row_offset_Cons:
  "row_offset (b # bs) (Suc i) = length (snd b) div 6 + row_offset bs i"
  by (simp add: row_offset_def)

lemma write_rows_nth:
  assumes "i < length smp" "j < length (snd (smp ! i)) div 6"
  shows "write_rows st sq sp smp ! (row_offset smp i + j) = batch_rows st sq sp (smp ! i) ! j"
  using assms
proof (induction smp arbitrary: i)
  case Nil
  then show ?case by simp
next
  case (Cons b bs)
  show ?case
  proof (cases i)
    case 0
    with Cons.prems show ?thesis
      by (simp add: row_offset_def nth_append)
  next
    case (Suc k)
    with Cons.prems have "write_rows st sq sp bs ! (row_offset bs k + j) = batch_rows st sq sp (bs ! k) ! j"
      by (intro Cons.IH) simp_all
    with Suc show ?thesis
      by (simp add: row_offset_Cons nth_append add.assoc)
  qed
qed

lemma do_end_success:
  assumes "do_end e s = (Inr (Some r), s')"
  shows "query_rate s \<noteq> 0 \<and> samples s \<noteq> []
    \<and> r_end_seq r = convert_sequence s (e_sequence (end_reply e))
    \<and> total_count r = (r_end_seq r - 1) * 8 + int (length (snd (last (samples s))) div 6)
    \<and> total_count r \<noteq> 0
    \<and> time_per_sample r =
        (clock_to_print_time e (end2_time (end_reply e)) - samples_start2 s) / of_int (total_count r)
    \<and> rows r = write_rows (samples_start2 s) (time_per_sample r * 8) (time_per_sample r) (samples s)
    \<and> actual_count r = int (length (rows r))
    \<and> drops r = total_count r - actual_count r"
  using assms
  by (auto simp: do_end_def Let_def convert_sequence_def zdiv_int split: if_splits)

lemma do_end_example: "do_end example_env streaming_example = (Inr (Some example_report), stopped_example)"
  by code_simp

lemma streaming_example_facts:
  "samples streaming_example \<noteq> []" "length (samples streaming_example) = 1" "fst (samples streaming_example ! 0) = 0"
  "length (snd (samples streaming_example ! 0)) div 6 = 8" "length (snd (last (samples streaming_example))) div 6 = 8"
  "row_offset (samples streaming_example) 0 = 0" "row_offset (samples streaming_example) (length (samples streaming_example)) = 8"
  "convert_sequence streaming_example (e_sequence (end_reply example_env)) = 500"
  by code_simp+

lemma streaming_example_times:
  "samples_start2 streaming_example = 10" "clock_to_print_time example_env (end2_time (end_reply example_env)) = 14"
  by (simp_all add: streaming_example_def example_env_def)

lemma do_end_produces_report:
  "(\<exists>r s'. do_end e s = (Inr (Some r), s')) \<longleftrightarrow>
     query_rate s \<noteq> 0 \<and> samples s \<noteq> []
     \<and> (convert_sequence s (e_sequence (end_reply e)) - 1) * 8
           + int (length (snd (last (samples s))) div 6) \<noteq> 0"
  by (auto simp: do_end_def Let_def convert_sequence_def zdiv_int split: if_splits)

text \<open>
  Claim C1. A stop writes a report exactly when a stream is running, at least one batch
  is retained and the total count is not 0. In the report \<open>total_count\<close> is
  \<open>(end_sequence - 1) * 8\<close> plus the number of 6-byte groups of the last retained
  batch, with \<open>end_sequence\<close> the extended final sequence; the sample interval is
  \<open>(end2_time - samples_start2) / total_count\<close>, the batch interval eight times that;
  and sample \<open>j\<close> of batch \<open>i\<close> is written with the time
  \<open>samples_start2 + seq * batch_interval + j * sample_interval\<close>, where \<open>seq\<close> is the
  extended sequence of the batch. For a start time 10, an end time 14 and a total
  count 4000 the interval is 0.001 and sample \<open>j\<close> of a batch of sequence 0 has the
  time \<open>10 + j * 0.001\<close>. Times are real numbers here.
\<close>

theorem stop_timing_correlation:
  "((\<exists>r' s''. do_end e s = (Inr (Some r'), s'')) \<longleftrightarrow>
      query_rate s \<noteq> 0 \<and> samples s \<noteq> []
      \<and> (convert_sequence s (e_sequence (end_reply e)) - 1) * 8
            + int (length (snd (last (samples s))) div 6) \<noteq> 0)
   \<and> (do_end e s = (Inr (Some r), s') \<longrightarrow>
        total_count r =
           (convert_sequence s (e_sequence (end_reply e)) - 1) * 8
             + int (length (snd (last (samples s))) div 6)
      \<and> time_per_sample r =
          (clock_to_print_time e (end2_time (end_reply e)) - samples_start2 s) / of_int (total_count r)
      \<and> (\<forall>i j. i < length (samples s) \<and> j < length (snd (samples s ! i)) div 6 \<longrightarrow>
            fst (rows r ! (row_offset (samples s) i + j)) =
              samples_start2 s + of_int (fst (samples s ! i)) * (time_per_sample r * 8)
                + of_nat j * time_per_sample r)
      \<and> length (rows r) = row_offset (samples s) (length (samples s))
      \<and> (samples_start2 s = 10 \<and> clock_to_print_time e (end2_time (end_reply e)) = 14
           \<and> total_count r = 4000 \<longrightarrow>
          time_per_sample r = 0.001
          \<and> (\<forall>i j. i < length (samples s) \<and> fst (samples s ! i) = 0
                 \<and> j < length (snd (samples s ! i)) div 6 \<longrightarrow>
               fst (rows r ! (row_offset (samples s) i + j)) = 10.0 + of_nat j * 0.001)))"
proof (intro conjI impI)
  show "(\<exists>r' s''. do_end e s = (Inr (Some r'), s'')) \<longleftrightarrow>
      query_rate s \<noteq> 0 \<and> samples s \<noteq> []
      \<and> (convert_sequence s (e_sequence (end_reply e)) - 1) * 8
            + int (length (snd (last (samples s))) div 6) \<noteq> 0"
    by (rule do_end_produces_report)
next
  assume a: "do_end e s = (Inr (Some r), s')"
  note d = do_end_success [OF a]
  show tc: "total_count r =
           (convert_sequence s (e_sequence (end_reply e)) - 1) * 8
             + int (length (snd (last (samples s))) div 6)"
    using d by simp
  show tps: "time_per_sample r =
        (clock_to_print_time e (end2_time (end_reply e)) - samples_start2 s) / of_int (total_count r)"
    using d by blast
  have rs: "rows r = write_rows (samples_start2 s) (time_per_sample r * 8) (time_per_sample r) (samples s)"
    using d by blast
  have ts: "fst (rows r ! (row_offset (samples s) i + j)) =
            samples_start2 s + of_int (fst (samples s ! i)) * (time_per_sample r * 8)
              + of_nat j * time_per_sample r"
    if "i < length (samples s)" "j < length (snd (samples s ! i)) div 6" for i j
    unfolding rs using that by (simp add: write_rows_nth batch_rows_nth)
  then show "\<forall>i j. i < length (samples s) \<and> j < length (snd (samples s ! i)) div 6 \<longrightarrow>
            fst (rows r ! (row_offset (samples s) i + j)) =
              samples_start2 s + of_int (fst (samples s ! i)) * (time_per_sample r * 8)
                + of_nat j * time_per_sample r"
    by blast
  show "length (rows r) = row_offset (samples s) (length (samples s))"
    unfolding rs by (rule length_write_rows)
  assume h: "samples_start2 s = 10 \<and> clock_to_print_time e (end2_time (end_reply e)) = 14
         \<and> total_count r = 4000"
  show p: "time_per_sample r = 0.001"
    using tps h by simp
  show "\<forall>i j. i < length (samples s) \<and> fst (samples s ! i) = 0
               \<and> j < length (snd (samples s ! i)) div 6 \<longrightarrow>
             fst (rows r ! (row_offset (samples s) i + j)) = 10.0 + of_nat j * 0.001"
    using ts h by (simp add: p)
qed

theorem stop_timing_correlation_witness:
  "query_rate streaming_example \<noteq> 0 \<and> samples streaming_example \<noteq> []
   \<and> (convert_sequence streaming_example (e_sequence (end_reply example_env)) - 1) * 8
        + int (length (snd (last (samples streaming_example))) div 6) = 4000
   \<and> (\<exists>r' s''. do_end example_env streaming_example = (Inr (Some r'), s''))
   \<and> do_end example_env streaming_example = (Inr (Some example_report), stopped_example)
   \<and> total_count example_report = (500 - 1) * 8 + 8
   \<and> time_per_sample example_report = (14 - 10) / 4000
   \<and> time_per_sample example_report = 0.001
   \<and> fst (rows example_report ! 3) = 10.0 + 3 * 0.001
   \<and> length (rows example_report) = 8"
proof -
  note c = stop_timing_correlation [where e = example_env and s = streaming_example and r = example_report
      and s' = stopped_example]
  have q: "query_rate streaming_example \<noteq> 0"
    by (simp add: streaming_example_def)
  have n: "(convert_sequence streaming_example (e_sequence (end_reply example_env)) - 1) * 8
        + int (length (snd (last (samples streaming_example))) div 6) = 4000"
    by (simp add: streaming_example_facts)
  have ex: "\<exists>r' s''. do_end example_env streaming_example = (Inr (Some r'), s'')"
    using c q n streaming_example_facts(1) by simp
  note t = c [THEN conjunct2, THEN mp, OF do_end_example,
      unfolded streaming_example_facts streaming_example_times]
  have tc: "total_count example_report = 4000"
    using t by simp
  have tps: "time_per_sample example_report = 0.001"
    using t tc by simp
  have "0 < length (samples streaming_example) \<and> fst (samples streaming_example ! 0) = 0 \<and> 3 < length (snd (samples streaming_example ! 0)) div 6"
    by (simp add: streaming_example_facts)
  then have "fst (rows example_report ! (row_offset (samples streaming_example) 0 + 3)) = 10.0 + of_nat 3 * 0.001"
    using t tc by blast
  then have r3: "fst (rows example_report ! 3) = 10.0 + 3 * 0.001"
    by (simp add: streaming_example_facts)
  have len: "length (rows example_report) = 8"
    using c [THEN conjunct2, THEN mp, OF do_end_example] streaming_example_facts(7) by simp
  show ?thesis
    using q n ex streaming_example_facts(1) do_end_example tc tps r3 len by simp
qed

section \<open>Decoding of the axis values\<close>

lemma uint_cat16: "uint (word_cat hi lo :: 16 word) = uint lo OR push_bit 8 (uint hi)"
  for lo hi :: byte
  by (rule bit_eqI) (auto simp: bit_simps bit_uint_iff dest: bit_imp_le_length)

lemma and_exp_of_bool: "(k::int) AND 2 ^ n = 2 ^ n * of_bool (bit k n)"
  by (rule bit_eqI) (auto simp: bit_simps)

lemma sign_term: "push_bit 9 (uint hi AND 0x80) = 65536 * of_bool (bit hi 7)"
  for hi :: byte
proof -
  have "uint hi AND 128 = 128 * of_bool (bit (uint hi) 7)"
    using and_exp_of_bool [of "uint hi" 7] by simp
  then show ?thesis
    by (simp add: push_bit_eq_mult bit_uint_iff)
qed

lemma bit15_cat: "bit (uint lo OR push_bit 8 (uint hi)) 15 \<longleftrightarrow> bit hi 7"
  for lo hi :: byte
  by (auto simp: bit_simps bit_uint_iff dest: bit_imp_le_length)

lemma axis_raw_sint: "axis_raw lo hi = sint (word_cat hi lo :: 16 word)"
proof -
  have "sint (word_cat hi lo :: 16 word)
      = take_bit 16 (uint (word_cat hi lo :: 16 word))
          - 2 ^ 16 * of_bool (bit (uint (word_cat hi lo :: 16 word)) 15)"
    by (simp add: sint_uint signed_take_bit_eq_take_bit_minus)
  also have "take_bit 16 (uint (word_cat hi lo :: 16 word)) = uint (word_cat hi lo :: 16 word)"
    using uint_bounded [of "word_cat hi lo :: 16 word"]
    by (intro take_bit_int_eq_self) simp_all
  finally show ?thesis
    unfolding uint_cat16 bit15_cat axis_raw_def sign_term by simp
qed

lemma cat_add: "uint lo OR push_bit 8 (uint hi) = uint lo + 256 * uint hi"
  for lo hi :: byte
proof -
  have "uint lo + push_bit 8 (uint hi) = uint lo OR push_bit 8 (uint hi)"
    by (rule disjunctive_add_eq_or, rule bit_eqI)
       (auto simp: bit_simps bit_uint_iff dest: bit_imp_le_length)
  then show ?thesis
    by (simp add: push_bit_eq_mult)
qed

lemma bit7_ge: "bit hi 7 \<longleftrightarrow> 128 \<le> uint hi" for hi :: byte
proof -
  have b: "uint hi < 256" "0 \<le> uint hi"
    using uint_bounded [of hi] by simp_all
  then have "uint hi div 128 = (if 128 \<le> uint hi then 1 else 0)"
    by presburger
  then have "bit (uint hi) 7 \<longleftrightarrow> 128 \<le> uint hi"
    by (simp add: bit_iff_odd)
  then show ?thesis
    by (simp add: bit_uint_iff)
qed

lemma axis_raw_arith:
  "axis_raw lo hi = uint lo + 256 * uint hi - (if uint hi < 128 then 0 else 65536)"
  unfolding axis_raw_def sign_term cat_add bit7_ge by simp


lemma axis_raw_signed_take_bit:
  "axis_raw lo hi = signed_take_bit 15 (uint lo OR push_bit 8 (uint hi))"
  by (simp add: axis_raw_sint sint_uint uint_cat16)

lemma axis_13bit_agrees_in_range:
  assumes "- 4096 \<le> axis_raw lo hi" "axis_raw lo hi < 4096"
  shows "axis_13bit_spec lo hi = axis_raw lo hi"
proof -
  have "signed_take_bit 12 (axis_raw lo hi) = axis_raw lo hi"
    using assms by (intro signed_take_bit_int_eq_self) simp_all
  then show ?thesis
    by (simp add: axis_raw_signed_take_bit axis_13bit_spec_def signed_take_bit_signed_take_bit)
qed

text \<open>
  The list reads of the decoding loops stay in range: the byte pairs read for
  \<open>sdata\<close> lie inside the payload and the three values read for a row lie inside
  \<open>sdata\<close>, so no read of the model is an unspecified value.
\<close>

lemma decode_reads_in_range:
  "(k < length d div 2 \<longrightarrow> k * 2 + 1 < length d)
   \<and> (j < length d div 6 \<longrightarrow> j * 3 + 2 < length (sdata d))"
  by auto

lemma row_axes:
  assumes "j < length d div 6"
  shows "snd (batch_rows st sq sp (seq, d) ! j) =
     (of_int (axis_raw (d ! (6 * j)) (d ! (6 * j + 1))) * SCALE,
      of_int (axis_raw (d ! (6 * j + 2)) (d ! (6 * j + 3))) * SCALE,
      of_int (axis_raw (d ! (6 * j + 4)) (d ! (6 * j + 5))) * SCALE)"
proof -
  have k: "j * 3 < length d div 2" "j * 3 + 1 < length d div 2" "j * 3 + 2 < length d div 2"
    using assms by auto
  have idx: "j * 3 * 2 = 6 * j" "j * 3 * 2 + 1 = 6 * j + 1"
    "(j * 3 + 1) * 2 = 6 * j + 2" "6 * j + 2 + 1 = 6 * j + 3"
    "(j * 3 + 2) * 2 = 6 * j + 4" "6 * j + 4 + 1 = 6 * j + 5"
    by simp_all
  have b: "j < length (snd (seq, d)) div 6"
    using assms by simp
  have "snd (batch_rows st sq sp (seq, d) ! j) =
      (sdata d ! (j * 3), sdata d ! (j * 3 + 1), sdata d ! (j * 3 + 2))"
    by (simp only: batch_rows_nth [OF b] snd_conv)
  also have "sdata d ! (j * 3) = of_int (axis_raw (d ! (6 * j)) (d ! (6 * j + 1))) * SCALE"
    by (simp only: sdata_nth [OF k(1)] idx)
  also have "sdata d ! (j * 3 + 1) = of_int (axis_raw (d ! (6 * j + 2)) (d ! (6 * j + 3))) * SCALE"
    by (simp only: sdata_nth [OF k(2)] idx)
  also have "sdata d ! (j * 3 + 2) = of_int (axis_raw (d ! (6 * j + 4)) (d ! (6 * j + 5))) * SCALE"
    by (simp only: sdata_nth [OF k(3)] idx)
  finally show ?thesis .
qed

lemma streaming_example_bytes:
  "snd (samples streaming_example ! 0) ! (6 * 3) = 0x64"
  "snd (samples streaming_example ! 0) ! (6 * 3 + 1) = 0x00"
  "snd (samples streaming_example ! 0) ! (6 * 3 + 2) = 0x9c"
  "snd (samples streaming_example ! 0) ! (6 * 3 + 3) = 0xff"
  "snd (samples streaming_example ! 0) ! (6 * 3 + 4) = 0xff"
  "snd (samples streaming_example ! 0) ! (6 * 3 + 5) = 0x0f"
  by code_simp+

text \<open>
  Claim C2, as the code has it. Each axis value is the little-endian 16-bit field made
  of its low and high byte, read as a two's-complement number of 16 bits: the top bit
  of the high byte (bit 15) is the sign bit, and \<open>0x10000\<close> is subtracted when it is
  set; bit 12 is an ordinary bit of the magnitude. Each value written for a 6-byte
  group is that integer multiplied by \<open>SCALE = 0.004 * 9.80665 * 1000\<close>.
\<close>

theorem axis_decoding_sixteen_bit:
  "axis_raw lo hi = sint (word_cat hi lo :: 16 word)
   \<and> axis_raw lo hi = uint lo + 256 * uint hi - (if uint hi < 128 then 0 else 65536)
   \<and> SCALE = 0.004 * 9.80665 * 1000
   \<and> (do_end e s = (Inr (Some r), s') \<and> i < length (samples s)
        \<and> j < length (snd (samples s ! i)) div 6 \<longrightarrow>
       snd (rows r ! (row_offset (samples s) i + j)) =
         (of_int (axis_raw (snd (samples s ! i) ! (6 * j)) (snd (samples s ! i) ! (6 * j + 1))) * SCALE,
          of_int (axis_raw (snd (samples s ! i) ! (6 * j + 2)) (snd (samples s ! i) ! (6 * j + 3))) * SCALE,
          of_int (axis_raw (snd (samples s ! i) ! (6 * j + 4)) (snd (samples s ! i) ! (6 * j + 5))) * SCALE))"
proof -
  have "snd (rows r ! (row_offset (samples s) i + j)) =
         (of_int (axis_raw (snd (samples s ! i) ! (6 * j)) (snd (samples s ! i) ! (6 * j + 1))) * SCALE,
          of_int (axis_raw (snd (samples s ! i) ! (6 * j + 2)) (snd (samples s ! i) ! (6 * j + 3))) * SCALE,
          of_int (axis_raw (snd (samples s ! i) ! (6 * j + 4)) (snd (samples s ! i) ! (6 * j + 5))) * SCALE)"
    if h: "do_end e s = (Inr (Some r), s')" "i < length (samples s)"
      "j < length (snd (samples s ! i)) div 6"
  proof -
    have rs: "rows r = write_rows (samples_start2 s) (time_per_sample r * 8) (time_per_sample r) (samples s)"
      using do_end_success [OF h(1)] by blast
    have "rows r ! (row_offset (samples s) i + j)
        = batch_rows (samples_start2 s) (time_per_sample r * 8) (time_per_sample r)
            (fst (samples s ! i), snd (samples s ! i)) ! j"
      unfolding rs using h by (simp add: write_rows_nth)
    then show ?thesis
      using h(3) by (simp only: row_axes)
  qed
  then show ?thesis
    using axis_raw_sint [of lo hi] axis_raw_arith [of lo hi] by (simp add: SCALE_def)
qed

theorem axis_decoding_sixteen_bit_witness:
  "axis_raw 0x9c 0xff = - 100
   \<and> sint (word_cat (0xff :: byte) (0x9c :: byte) :: 16 word) = - 100
   \<and> do_end example_env streaming_example = (Inr (Some example_report), stopped_example)
   \<and> snd (rows example_report ! 3) = (100 * SCALE, - 100 * SCALE, 4095 * SCALE)"
proof -
  note t = axis_decoding_sixteen_bit [where lo = "0x9c" and hi = "0xff" and e = example_env
      and s = streaming_example and r = example_report and s' = stopped_example
      and i = 0 and j = 3]
  have a: "axis_raw 0x9c 0xff = - 100" "axis_raw 0x64 0x00 = 100" "axis_raw 0xff 0x0f = 4095"
    by (simp_all add: axis_raw_def)
  have h: "do_end example_env streaming_example = (Inr (Some example_report), stopped_example)
      \<and> 0 < length (samples streaming_example)
      \<and> 3 < length (snd (samples streaming_example ! 0)) div 6"
    by (simp add: do_end_example streaming_example_facts)
  with t have "snd (rows example_report ! (row_offset (samples streaming_example) 0 + 3)) =
      (of_int (axis_raw 0x64 0x00) * SCALE, of_int (axis_raw 0x9c 0xff) * SCALE,
       of_int (axis_raw 0xff 0x0f) * SCALE)"
    unfolding streaming_example_bytes by blast
  then have r: "snd (rows example_report ! 3) = (100 * SCALE, - 100 * SCALE, 4095 * SCALE)"
    by (simp add: streaming_example_facts a)
  from t have "sint (word_cat (0xff :: byte) (0x9c :: byte) :: 16 word) = axis_raw 0x9c 0xff"
    by simp
  with a r do_end_example show ?thesis
    by simp
qed

text \<open>
  Claim C2, as stated, fails for the bytes \<open>0x00, 0x10\<close>: the code decodes them to
  4096, where a sign extension at 13-bit width gives -4096.
\<close>

theorem axis_decoding_thirteen_bit_counterexample:
  "axis_raw 0x00 0x10 = 4096 \<and> axis_13bit_spec 0x00 0x10 = - 4096"
  by (simp add: axis_raw_def axis_13bit_spec_def)

section \<open>Stopping a stream\<close>

lemma do_end_raises:
  assumes "query_rate s \<noteq> 0"
  shows "(samples s = [] \<longrightarrow>
            do_end e s = (Inl IndexError,
              s\<lparr> last_tx_time := last_move_time e, query_rate := 0, samples := [] \<rparr>))
     \<and> (samples s \<noteq> [] \<and> (convert_sequence s (e_sequence (end_reply e)) - 1) * 8
           + int (length (snd (last (samples s))) div 6) = 0 \<longrightarrow>
            do_end e s = (Inl ZeroDivisionError,
              s\<lparr> last_tx_time := last_move_time e, query_rate := 0, samples := [] \<rparr>))"
  using assms by (simp add: do_end_def Let_def convert_sequence_def zdiv_int)

text \<open>
  Claim C5 asks that a stop whose total count is 0 ends with a failure of its own for
  too few samples, the buffer cleared, no rows produced and no division by zero. The
  code has no check before line 123 or line 126, and the claim does not hold of it.
  Started with rate 100 and stopped before any packet has arrived, the command raises
  \<open>IndexError\<close> at \<open>samples[-1]\<close>; stopped after one packet without samples, with
  the final sequence 1, the total count is 0 and the division raises
  \<open>ZeroDivisionError\<close>. In both runs the buffer was emptied and \<open>query_rate\<close> reset
  before the raise, and neither a report nor the notice of the command is produced.
\<close>

theorem stop_without_samples_raises:
  "snd (cmd_ACCELEROMETER_MEASURE example_env 100 init) = started_example
   \<and> cmd_ACCELEROMETER_MEASURE first_end_env 0 started_example
       = (Inl IndexError, started_example\<lparr> query_rate := 0 \<rparr>)
   \<and> handle_adxl345_data \<lparr> d_sequence = 0, d_data = [] \<rparr> started_example = empty_batch_example
   \<and> cmd_ACCELEROMETER_MEASURE first_end_env 0 empty_batch_example
       = (Inl ZeroDivisionError, started_example\<lparr> query_rate := 0 \<rparr>)"
  by (simp add: cmd_ACCELEROMETER_MEASURE_def do_start_def do_end_def QUERY_RATES_def
      example_env_def first_end_env_def init_def started_example_def empty_batch_example_def
      handle_adxl345_data_def convert_sequence_def Let_def)

text \<open>
  Claim C10. Stopping leaves \<open>last_sequence\<close> and the two start times as they were:
  the state after \<open>do_end\<close> is the state before it with \<open>last_tx_time\<close>,
  \<open>query_rate\<close> and \<open>samples\<close> assigned, or the very same state when no stream was
  running. The final sequence is extended against \<open>last_sequence\<close> and reported, not
  stored.
\<close>

theorem stop_keeps_sequence_context:
  "snd (do_end e s) =
     (if query_rate s = 0 then s
      else s\<lparr> last_tx_time := last_move_time e, query_rate := 0, samples := [] \<rparr>)
   \<and> last_sequence (snd (do_end e s)) = last_sequence s
   \<and> samples_start1 (snd (do_end e s)) = samples_start1 s
   \<and> samples_start2 (snd (do_end e s)) = samples_start2 s
   \<and> (do_end e s = (Inr (Some r), s') \<longrightarrow>
        r_end_seq r = convert_sequence s (e_sequence (end_reply e)) \<and> last_sequence s' = last_sequence s)"
proof -
  have "r_end_seq r = convert_sequence s (e_sequence (end_reply e))"
    if "do_end e s = (Inr (Some r), s')"
    using that by (auto simp: do_end_def Let_def convert_sequence_def split: if_splits)
  moreover have "last_sequence s' = last_sequence s" if "do_end e s = (Inr (Some r), s')"
    using do_end_state [of e s] that by (simp split: if_splits)
  ultimately show ?thesis
    by (simp add: do_end_state)
qed

theorem stop_keeps_sequence_context_witness:
  "do_end example_env streaming_example = (Inr (Some example_report), stopped_example)
   \<and> r_end_seq example_report = 500
   \<and> last_sequence streaming_example = 0
   \<and> last_sequence stopped_example = 0
   \<and> snd (do_end example_env streaming_example)
       = streaming_example\<lparr> last_tx_time := 14, query_rate := 0, samples := [] \<rparr>"
  using stop_keeps_sequence_context [where e = example_env and s = streaming_example and r = example_report
      and s' = stopped_example] do_end_example
  by (simp add: streaming_example_def stopped_example_def example_env_def example_report_def)

end
